theory Spec2Isabelle
  imports Complex_Main "HOL-Library.Sublist"
begin

section \<open>Instants and the calendar\<close>

text \<open>
  A JavaScript \<open>Date\<close> is modelled by its time value: the number of milliseconds since
  1970-01-01T00:00:00Z, an \<open>int\<close>. Only valid instants are modelled (no \<open>Invalid Date\<close>).
  The calendar functions are the ones of the ECMAScript specification (\<open>Day\<close>,
  \<open>DayFromYear\<close>, \<open>YearFromTime\<close>, \<open>MonthFromTime\<close>, \<open>DateFromTime\<close>, \<open>MakeDay\<close>,
  \<open>MakeDate\<close>), with the local time zone fixed to UTC, so that the local-time accessors of
  \<open>Date\<close> (\<open>getDate\<close>, \<open>setMonth\<close>, ...) coincide with the UTC ones. Months are numbered
  from 0 as in JavaScript.
\<close>

type_synonym instant = int

definition msPerDay :: int where
  "msPerDay = 24 * 60 * 60 * 1000"

definition Day :: "instant \<Rightarrow> int" where
  "Day t = t div msPerDay"

definition TimeWithinDay :: "instant \<Rightarrow> int" where
  "TimeWithinDay t = t mod msPerDay"

definition InLeapYear :: "int \<Rightarrow> bool" where
  "InLeapYear y = (y mod 4 = 0 \<and> (y mod 100 \<noteq> 0 \<or> y mod 400 = 0))"

definition DaysInYear :: "int \<Rightarrow> int" where
  "DaysInYear y = (if InLeapYear y then 366 else 365)"

definition DayFromYear :: "int \<Rightarrow> int" where
  "DayFromYear y =
     365 * (y - 1970) + (y - 1969) div 4 - (y - 1901) div 100 + (y - 1601) div 400"

text \<open>
  \<open>YearFromDay y0 d\<close> searches, from the starting year \<open>y0\<close>, the year \<open>y\<close> with
  \<open>DayFromYear y \<le> d < DayFromYear (y + 1)\<close>: the largest year that starts on or before
  day \<open>d\<close>.
\<close>

function YearFromDay :: "int \<Rightarrow> int \<Rightarrow> int" where
  "YearFromDay y d =
     (if d < DayFromYear y then YearFromDay (y - 1) d
      else if DayFromYear (y + 1) \<le> d then YearFromDay (y + 1) d
      else y)"
  by pat_completeness auto

definition YearFromTime :: "instant \<Rightarrow> int" where
  "YearFromTime t = YearFromDay 1970 (Day t)"

definition DayWithinYear :: "instant \<Rightarrow> int" where
  "DayWithinYear t = Day t - DayFromYear (YearFromTime t)"

text \<open>The number of days of year \<open>y\<close> that precede its month \<open>m\<close> (0 to 11).\<close>

definition DaysBeforeMonth :: "int \<Rightarrow> int \<Rightarrow> int" where
  "DaysBeforeMonth y m =
     (let l = (if InLeapYear y then 1 else 0) in
      if m = 0 then 0 else if m = 1 then 31 else if m = 2 then 59 + l
      else if m = 3 then 90 + l else if m = 4 then 120 + l else if m = 5 then 151 + l
      else if m = 6 then 181 + l else if m = 7 then 212 + l else if m = 8 then 243 + l
      else if m = 9 then 273 + l else if m = 10 then 304 + l else 334 + l)"

definition MonthFromDay :: "int \<Rightarrow> int \<Rightarrow> int" where
  "MonthFromDay y d =
     (let l = (if InLeapYear y then 1 else 0) in
      if d < 31 then 0 else if d < 59 + l then 1 else if d < 90 + l then 2
      else if d < 120 + l then 3 else if d < 151 + l then 4 else if d < 181 + l then 5
      else if d < 212 + l then 6 else if d < 243 + l then 7 else if d < 273 + l then 8
      else if d < 304 + l then 9 else if d < 334 + l then 10 else 11)"

definition MonthFromTime :: "instant \<Rightarrow> int" where
  "MonthFromTime t = MonthFromDay (YearFromTime t) (DayWithinYear t)"

definition DateFromTime :: "instant \<Rightarrow> int" where
  "DateFromTime t =
     DayWithinYear t - DaysBeforeMonth (YearFromTime t) (MonthFromTime t) + 1"

text \<open>
  \<open>MakeDay\<close> accepts any month and day number: a month outside 0..11 carries into the
  year, a day outside the month carries into the neighbouring months.
\<close>

definition MakeDay :: "int \<Rightarrow> int \<Rightarrow> int \<Rightarrow> int" where
  "MakeDay y m dt =
     (let ym = y + m div 12; mn = m mod 12
      in DayFromYear ym + DaysBeforeMonth ym mn + dt - 1)"

definition MakeDate :: "int \<Rightarrow> int \<Rightarrow> instant" where
  "MakeDate day time = day * msPerDay + time"

subsection \<open>The \<open>Date\<close> methods and the date-fns functions the code calls\<close>

definition getFullYear :: "instant \<Rightarrow> int" where
  "getFullYear t = YearFromTime t"

definition getMonth :: "instant \<Rightarrow> int" where
  "getMonth t = MonthFromTime t"

definition getDate :: "instant \<Rightarrow> int" where
  "getDate t = DateFromTime t"

definition setDate :: "instant \<Rightarrow> int \<Rightarrow> instant" where
  "setDate t dt = MakeDate (MakeDay (YearFromTime t) (MonthFromTime t) dt) (TimeWithinDay t)"

definition setMonth :: "instant \<Rightarrow> int \<Rightarrow> int \<Rightarrow> instant" where
  "setMonth t m dt = MakeDate (MakeDay (YearFromTime t) m dt) (TimeWithinDay t)"

definition setFullYear :: "instant \<Rightarrow> int \<Rightarrow> int \<Rightarrow> int \<Rightarrow> instant" where
  "setFullYear t y m dt = MakeDate (MakeDay y m dt) (TimeWithinDay t)"

definition setHours0 :: "instant \<Rightarrow> instant" where
  \<comment> \<open>\<open>setHours(0, 0, 0, 0)\<close>\<close>
  "setHours0 t = MakeDate (Day t) 0"

text \<open>
  date-fns is an external dependency. \<open>addDays\<close> sets the day of the month to
  \<open>getDate() + amount\<close>; \<open>addWeeks\<close> adds \<open>7 * amount\<close> days; \<open>addMonths\<close> moves to the same
  day of the target month, or to that month's last day when it is shorter; \<open>addYears\<close>
  adds \<open>12 * amount\<close> months.
\<close>

definition addDays :: "instant \<Rightarrow> int \<Rightarrow> instant" where
  "addDays t amount = (if amount = 0 then t else setDate t (getDate t + amount))"

definition addWeeks :: "instant \<Rightarrow> int \<Rightarrow> instant" where
  "addWeeks t amount = addDays t (amount * 7)"

definition addMonths :: "instant \<Rightarrow> int \<Rightarrow> instant" where
  "addMonths t amount =
     (if amount = 0 then t
      else let dayOfMonth = getDate t;
               endOfDesiredMonth = setMonth t (getMonth t + amount + 1) 0;
               daysInMonth = getDate endOfDesiredMonth
           in if dayOfMonth \<ge> daysInMonth then endOfDesiredMonth
              else setFullYear t (getFullYear endOfDesiredMonth)
                     (getMonth endOfDesiredMonth) dayOfMonth)"

definition addYears :: "instant \<Rightarrow> int \<Rightarrow> instant" where
  "addYears t amount = addMonths t (amount * 12)"

section \<open>The data model\<close>

text \<open>
  Numbers are modelled as reals: \<open>NaN\<close>, the infinities and rounding are not modelled.
  A record's instant-typed fields have the type parameter \<open>'d\<close>: \<open>instant\<close> in
  memory, the ISO-8601 text on disk.
\<close>

datatype TransactionType = income | expense

text \<open>\<open>Omit<Transaction, 'id' | 'createdAt' | 'updatedAt'>\<close>, the argument of \<open>addTransaction\<close>.\<close>

record 'd transaction_data =
  amount :: real
  type :: TransactionType
  category :: string
  categoryId :: string
  description :: string
  date :: 'd
  receiptImage :: "string option"

record 'd transaction = "'d transaction_data" +
  txn_id :: string
  createdAt :: 'd
  updatedAt :: 'd

datatype RecurringFrequency = daily | weekly | monthly | yearly

record RecurringTransaction =
  rec_id :: string
  rec_amount :: real
  rec_type :: TransactionType
  rec_category :: string
  rec_categoryId :: string
  rec_description :: string
  frequency :: RecurringFrequency
  startDate :: instant
  endDate :: "instant option"
  lastProcessed :: "instant option"
  isActive :: bool
  rec_createdAt :: instant

section \<open>The recurring transaction materializer\<close>

text \<open>\<open>String.prototype.includes\<close>: \<open>t\<close> occurs in \<open>s\<close> as a contiguous substring.\<close>

fun str_includes :: "string \<Rightarrow> string \<Rightarrow> bool" where
  "str_includes [] t = (t = [])"
| "str_includes (c # s) t = (prefix t (c # s) \<or> str_includes s t)"

definition autoTag :: "RecurringTransaction \<Rightarrow> string" where
  \<comment> \<open>the template literal \<open>[Auto: ${recurring.description}]\<close>\<close>
  "autoTag recurring = ''[Auto: '' @ rec_description recurring @ '']''"

definition getNextDate :: "instant \<Rightarrow> RecurringFrequency \<Rightarrow> instant" where
  "getNextDate d f =
     (case f of daily \<Rightarrow> addDays d 1 | weekly \<Rightarrow> addWeeks d 1
      | monthly \<Rightarrow> addMonths d 1 | yearly \<Rightarrow> addYears d 1)"

text \<open>
  The test of the loop for an existing transaction of this recurring item on this date.
  A transaction's \<open>date\<close> is a \<open>Date\<close>, as its type says; the code's conversion of a
  string-typed \<open>date\<close> is not modelled.
\<close>

definition alreadyExists ::
  "instant transaction list \<Rightarrow> RecurringTransaction \<Rightarrow> instant \<Rightarrow> bool" where
  "alreadyExists existing recurring nextDate =
     list_ex (\<lambda>txn. str_includes (description txn) (autoTag recurring)
                \<and> \<bar>date txn - nextDate\<bar> < 24 * 60 * 60 * 1000) existing"

text \<open>
  The function reads its two argument arrays and pushes onto the local array
  \<open>newTransactions\<close>; the three arrays are the state the loops run on.
\<close>

record materializer_state =
  recurringTransactions :: "RecurringTransaction list"
  existingTransactions :: "instant transaction list"
  newTransactions :: "instant transaction_data list"

definition pushNew ::
  "RecurringTransaction \<Rightarrow> instant \<Rightarrow> materializer_state \<Rightarrow> materializer_state" where
  "pushNew recurring nextDate s =
     s\<lparr>newTransactions := newTransactions s @
         [\<lparr>amount = rec_amount recurring, type = rec_type recurring,
           category = rec_category recurring, categoryId = rec_categoryId recurring,
           description = autoTag recurring, date = nextDate, receiptImage = None\<rparr>]\<rparr>"

function missedDates ::
  "instant \<Rightarrow> RecurringTransaction \<Rightarrow> instant \<Rightarrow> materializer_state \<Rightarrow> materializer_state" where
  "missedDates now recurring nextDate s =
     (if nextDate \<le> now
      then missedDates now recurring (getNextDate nextDate (frequency recurring))
             (if \<not> alreadyExists (existingTransactions s) recurring nextDate
              then pushNew recurring nextDate s else s)
      else s)"
  by pat_completeness auto

definition forEachRecurring ::
  "instant \<Rightarrow> materializer_state \<Rightarrow> RecurringTransaction \<Rightarrow> materializer_state" where
  "forEachRecurring now s recurring =
     (if \<not> isActive recurring then s
      else if (case endDate recurring of Some e \<Rightarrow> now > e | None \<Rightarrow> False) then s
      else let cursor = (case lastProcessed recurring of Some l \<Rightarrow> l
                         | None \<Rightarrow> startDate recurring)
           in missedDates now recurring (getNextDate cursor (frequency recurring)) s)"

definition runMaterializer :: "instant \<Rightarrow> materializer_state \<Rightarrow> materializer_state" where
  "runMaterializer now s = foldl (forEachRecurring now) s (recurringTransactions s)"

definition processRecurringTransactions ::
  "instant \<Rightarrow> RecurringTransaction list \<Rightarrow> instant transaction list
     \<Rightarrow> instant transaction_data list" where
  "processRecurringTransactions now recurrings existing =
     newTransactions (runMaterializer now
       \<lparr>recurringTransactions = recurrings, existingTransactions = existing,
        newTransactions = []\<rparr>)"

section \<open>The store\<close>

record Category =
  cat_id :: string
  cat_name :: string
  cat_icon :: string
  cat_color :: string
  cat_type :: TransactionType
  budgetLimit :: "real option"

record CategoryBudget =
  cb_categoryId :: string
  cb_limit :: real
  cb_spent :: real

record Budget =
  budget_id :: string
  month :: string
  totalBudget :: real
  categoryBudgets :: "CategoryBudget list"

record UserSettings =
  currency :: string
  darkMode :: bool
  biometricEnabled :: bool
  notifications :: bool
  language :: string

record AppState =
  transactions :: "instant transaction list"
  categories :: "Category list"
  budgets :: "Budget list"
  settings :: UserSettings
  userId :: "string option"
  isOnline :: bool
  isSyncing :: bool

subsection \<open>Serialized instants\<close>

text \<open>
  \<open>JSON.stringify\<close> writes a \<open>Date\<close> as the text \<open>YYYY-MM-DDTHH:mm:ss.sssZ\<close> of
  \<open>toISOString\<close>; the text is modelled by its seven numeric fields (the month from 1),
  and \<open>new Date(text)\<close> reads them back.
\<close>

record iso8601 =
  iso_year :: int
  iso_month :: int
  iso_day :: int
  iso_hours :: int
  iso_minutes :: int
  iso_seconds :: int
  iso_ms :: int

definition HourFromTime :: "instant \<Rightarrow> int" where
  "HourFromTime t = (t div 3600000) mod 24"

definition MinFromTime :: "instant \<Rightarrow> int" where
  "MinFromTime t = (t div 60000) mod 60"

definition SecFromTime :: "instant \<Rightarrow> int" where
  "SecFromTime t = (t div 1000) mod 60"

definition msFromTime :: "instant \<Rightarrow> int" where
  "msFromTime t = t mod 1000"


definition toISOString :: "instant \<Rightarrow> iso8601" where
  "toISOString t =
     \<lparr>iso_year = YearFromTime t, iso_month = MonthFromTime t + 1, iso_day = DateFromTime t,
      iso_hours = HourFromTime t, iso_minutes = MinFromTime t, iso_seconds = SecFromTime t,
      iso_ms = msFromTime t\<rparr>"


text \<open>A transaction with every instant-typed field converted by \<open>f\<close>, the other fields kept.\<close>

definition convertDates :: "('a \<Rightarrow> 'b) \<Rightarrow> 'a transaction \<Rightarrow> 'b transaction" where
  "convertDates f txn =
     \<lparr>amount = amount txn, type = type txn, category = category txn,
      categoryId = categoryId txn, description = description txn, date = f (date txn),
      receiptImage = receiptImage txn, txn_id = txn_id txn,
      createdAt = f (createdAt txn), updatedAt = f (updatedAt txn)\<rparr>"

subsection \<open>The world the store acts on\<close>

text \<open>
  \<open>AsyncStorage\<close> holds one JSON text per key, absent until first written. A text is
  modelled by the value it denotes: \<open>JSON.parse (JSON.stringify x)\<close> is \<open>x\<close> for plain
  data, and a \<open>Date\<close> becomes its ISO text. Writes are taken to succeed.
\<close>

record AsyncStorage =
  TRANSACTIONS :: "iso8601 transaction list option"
  CATEGORIES :: "Category list option"
  BUDGETS :: "Budget list option"
  SETTINGS :: "UserSettings option"

text \<open>The calls issued to the remote store, in the order they are issued.\<close>

datatype firestore_call =
    SyncTransaction string "instant transaction"
  | DeleteTransaction string string
  | SyncCategories string "Category list"
  | SyncBudget string Budget
  | SyncSettings string UserSettings

text \<open>A call of \<open>sendBudgetAlert(categoryName, percentage, spent, limit, currency)\<close>.\<close>

record BudgetAlert =
  alert_categoryName :: string
  alert_percentage :: real
  alert_spent :: real
  alert_limit :: real
  alert_currency :: string

record world =
  store :: AppState
  storage :: AsyncStorage
  firestore :: "firestore_call list"
  budgetAlerts :: "BudgetAlert list"

subsection \<open>Environment readings\<close>

text \<open>
  What one call of \<open>addTransaction\<close> reads from its environment: \<open>Date.now()\<close> for the
  id, the result of \<open>Math.random().toString(36).substr(2, 9)\<close>, and the three
  \<open>new Date()\<close> readings (for \<open>createdAt\<close>, \<open>updatedAt\<close> and the month start of the
  budget check).
\<close>

record env =
  idClock :: nat
  randomSuffix :: string
  createdClock :: instant
  updatedClock :: instant
  alertClock :: instant

definition digitChar :: "nat \<Rightarrow> char" where
  "digitChar d = ''0123456789'' ! d"

fun showNat :: "nat \<Rightarrow> string" where
  "showNat n = (if n < 10 then [digitChar n] else showNat (n div 10) @ [digitChar (n mod 10)])"

definition newTransactionId :: "nat \<Rightarrow> string \<Rightarrow> string" where
  \<comment> \<open>the template literal \<open>txn_${Date.now()}_${...}\<close>\<close>
  "newTransactionId clock rnd = ''txn_'' @ showNat clock @ ''_'' @ rnd"

text \<open>JavaScript truthiness of a \<open>string | null\<close>: neither \<open>null\<close> nor the empty string.\<close>

definition truthy :: "string option \<Rightarrow> bool" where
  "truthy u = (case u of None \<Rightarrow> False | Some s \<Rightarrow> s \<noteq> [])"

subsection \<open>Persistence\<close>

definition saveData :: "world \<Rightarrow> world" where
  "saveData w =
     w\<lparr>storage :=
         \<lparr>TRANSACTIONS = Some (map (convertDates toISOString) (transactions (store w))),
          CATEGORIES = Some (categories (store w)),
          BUDGETS = Some (budgets (store w)),
          SETTINGS = Some (settings (store w))\<rparr>\<rparr>"


subsection \<open>Transactions\<close>

definition monthStartOf :: "instant \<Rightarrow> instant" where
  \<comment> \<open>\<open>setDate(1)\<close> then \<open>setHours(0, 0, 0, 0)\<close>\<close>
  "monthStartOf t = setHours0 (setDate t 1)"

definition budgetCheck :: "instant \<Rightarrow> instant transaction \<Rightarrow> world \<Rightarrow> world" where
  "budgetCheck clock newTransaction w =
     (case find (\<lambda>cat. cat_id cat = categoryId newTransaction) (categories (store w)) of
        None \<Rightarrow> w
      | Some cat \<Rightarrow>
         (case budgetLimit cat of
            None \<Rightarrow> w
          | Some limitValue \<Rightarrow>
              if limitValue = 0 then w
              else let monthStart = monthStartOf clock;
                       monthExpenses = filter (\<lambda>txn. type txn = expense
                           \<and> categoryId txn = cat_id cat \<and> date txn \<ge> monthStart)
                         (transactions (store w));
                       totalSpent = foldl (\<lambda>total txn. total + amount txn) 0 monthExpenses;
                       percentage = (totalSpent / limitValue) * 100
                   in if percentage \<ge> 75
                      then w\<lparr>budgetAlerts := budgetAlerts w @
                             [\<lparr>alert_categoryName = cat_name cat,
                               alert_percentage = percentage, alert_spent = totalSpent,
                               alert_limit = limitValue,
                               alert_currency = currency (settings (store w))\<rparr>]\<rparr>
                      else w))"

definition makeTransaction :: "env \<Rightarrow> instant transaction_data \<Rightarrow> instant transaction" where
  "makeTransaction e transactionData =
     transaction_data.extend transactionData
       (transaction.fields (newTransactionId (idClock e) (randomSuffix e))
          (createdClock e) (updatedClock e))"

definition addTransaction :: "env \<Rightarrow> instant transaction_data \<Rightarrow> world \<Rightarrow> world" where
  "addTransaction e transactionData w =
     (let newTransaction = makeTransaction e transactionData;
          w1 = w\<lparr>store := (store w)\<lparr>transactions := newTransaction # transactions (store w)\<rparr>\<rparr>;
          w2 = saveData w1;
          w3 = (if truthy (userId (store w2))
                then w2\<lparr>firestore := firestore w2 @
                        [SyncTransaction (the (userId (store w2))) newTransaction]\<rparr>
                else w2)
      in if type newTransaction = expense then budgetCheck (alertClock e) newTransaction w3
         else w3)"

subsection \<open>The add-transaction form\<close>




subsection \<open>Budgets\<close>

definition setBudget :: "Budget \<Rightarrow> world \<Rightarrow> world" where
  "setBudget budget w =
     (let w1 = w\<lparr>store := (store w)\<lparr>budgets :=
                 filter (\<lambda>b. month b \<noteq> month budget) (budgets (store w)) @ [budget]\<rparr>\<rparr>;
          w2 = saveData w1
      in if truthy (userId (store w2))
         then w2\<lparr>firestore := firestore w2 @ [SyncBudget (the (userId (store w2))) budget]\<rparr>
         else w2)"

text \<open>\<open>Partial<Budget>\<close>: each field present or absent.\<close>

record BudgetPatch =
  patch_id :: "string option"
  patch_month :: "string option"
  patch_totalBudget :: "real option"
  patch_categoryBudgets :: "CategoryBudget list option"

definition applyPatch :: "Budget \<Rightarrow> BudgetPatch \<Rightarrow> Budget" where
  \<comment> \<open>\<open>{ ...budget, ...updates }\<close>\<close>
  "applyPatch budget updates =
     \<lparr>budget_id = (case patch_id updates of Some v \<Rightarrow> v | None \<Rightarrow> budget_id budget),
      month = (case patch_month updates of Some v \<Rightarrow> v | None \<Rightarrow> month budget),
      totalBudget = (case patch_totalBudget updates of Some v \<Rightarrow> v
                     | None \<Rightarrow> totalBudget budget),
      categoryBudgets = (case patch_categoryBudgets updates of Some v \<Rightarrow> v
                         | None \<Rightarrow> categoryBudgets budget)\<rparr>"

definition updateBudget :: "string \<Rightarrow> BudgetPatch \<Rightarrow> world \<Rightarrow> world" where
  "updateBudget ident updates w =
     (let w1 = w\<lparr>store := (store w)\<lparr>budgets :=
                 map (\<lambda>budget. if budget_id budget = ident then applyPatch budget updates
                                else budget) (budgets (store w))\<rparr>\<rparr>;
          w2 = saveData w1
      in if truthy (userId (store w2))
         then (case find (\<lambda>b. budget_id b = ident) (budgets (store w2)) of
                 Some updatedBudget \<Rightarrow>
                   w2\<lparr>firestore := firestore w2 @
                        [SyncBudget (the (userId (store w2))) updatedBudget]\<rparr>
               | None \<Rightarrow> w2)
         else w2)"

subsection \<open>Bootstrap merge and the real-time listener\<close>

text \<open>
  What the four fetches of \<open>syncWithFirestore\<close> return: \<open>None\<close> is a rejected fetch,
  which the code's \<open>catch\<close> replaces by \<open>[]\<close> (by \<open>null\<close> for the settings); the settings
  document may also not exist (\<open>Some None\<close>).
\<close>

record fetched =
  getTransactions :: "instant transaction list option"
  getCategories :: "Category list option"
  getBudgets :: "Budget list option"
  getSettings :: "UserSettings option option"

definition syncWithFirestore :: "Category list \<Rightarrow> fetched \<Rightarrow> world \<Rightarrow> world" where
  "syncWithFirestore ALL_CATEGORIES r w =
     (if \<not> truthy (userId (store w)) then w
      else let uid = the (userId (store w));
               w1 = w\<lparr>store := (store w)\<lparr>isSyncing := True\<rparr>\<rparr>;
               firestoreTransactions = (case getTransactions r of Some v \<Rightarrow> v | None \<Rightarrow> []);
               firestoreCategories = (case getCategories r of Some v \<Rightarrow> v | None \<Rightarrow> []);
               firestoreBudgets = (case getBudgets r of Some v \<Rightarrow> v | None \<Rightarrow> []);
               firestoreSettings = (case getSettings r of Some v \<Rightarrow> v | None \<Rightarrow> None);
               localTransactions = transactions (store w1);
               localCategories = categories (store w1);
               mergedTransactions = (if length firestoreTransactions > 0
                                     then firestoreTransactions else localTransactions);
               mergedCategories = (if length firestoreCategories > 0
                                   then firestoreCategories else localCategories);
               w2 = w1\<lparr>store := (store w1)
                      \<lparr>transactions := mergedTransactions,
                       categories := (if length mergedCategories > 0 then mergedCategories
                                      else ALL_CATEGORIES),
                       budgets := firestoreBudgets,
                       settings := (case firestoreSettings of Some v \<Rightarrow> v
                                    | None \<Rightarrow> settings (store w1)),
                       isSyncing := False\<rparr>\<rparr>;
               w3 = saveData w2;
               w4 = (if length localTransactions > 0 \<and> length firestoreTransactions = 0
                     then foldl (\<lambda>v txn. v\<lparr>firestore := firestore v @ [SyncTransaction uid txn]\<rparr>)
                            w3 localTransactions
                     else w3)
           in if length localCategories > 0 \<and> length firestoreCategories = 0
              then w4\<lparr>firestore := firestore w4 @ [SyncCategories uid localCategories]\<rparr>
              else w4)"

text \<open>The callback that \<open>subscribeToRealtimeUpdates\<close> registers for transaction snapshots.\<close>

definition onSnapshot :: "instant transaction list \<Rightarrow> world \<Rightarrow> world" where
  "onSnapshot snapshot w =
     w\<lparr>store := (store w)\<lparr>transactions := snapshot\<rparr>,
       storage := (storage w)\<lparr>TRANSACTIONS := Some (map (convertDates toISOString) snapshot)\<rparr>\<rparr>"

definition subscribeToRealtimeUpdates ::
  "world \<Rightarrow> (instant transaction list \<Rightarrow> world \<Rightarrow> world) option" where
  "subscribeToRealtimeUpdates w =
     (if \<not> truthy (userId (store w)) then None else Some onSnapshot)"

section \<open>Budget health\<close>



section \<open>Auxiliary definitions\<close>

text \<open>
  The definitions of this section are not functions of the program: they name what the
  program computes, for the statements and proofs below.
\<close>

text \<open>The record pushed for the occurrence of \<open>recurring\<close> at \<open>nextDate\<close>.\<close>

definition occurrence :: "RecurringTransaction \<Rightarrow> instant \<Rightarrow> instant transaction_data" where
  "occurrence recurring nextDate =
     \<lparr>amount = rec_amount recurring, type = rec_type recurring,
      category = rec_category recurring, categoryId = rec_categoryId recurring,
      description = autoTag recurring, date = nextDate, receiptImage = None\<rparr>"

text \<open>The cursor values the \<open>while\<close> loop visits, from \<open>nextDate\<close> on.\<close>

function dueDates :: "instant \<Rightarrow> RecurringFrequency \<Rightarrow> instant \<Rightarrow> instant list" where
  "dueDates now f nextDate =
     (if nextDate \<le> now then nextDate # dueDates now f (getNextDate nextDate f) else [])"
  by pat_completeness auto

text \<open>What one recurring definition contributes, given the existing transactions.\<close>

definition emitted ::
  "instant \<Rightarrow> instant transaction list \<Rightarrow> RecurringTransaction \<Rightarrow> instant transaction_data list" where
  "emitted now existing recurring =
     (if \<not> isActive recurring then []
      else if (case endDate recurring of Some e \<Rightarrow> now > e | None \<Rightarrow> False) then []
      else map (occurrence recurring)
             (filter (\<lambda>c. \<not> alreadyExists existing recurring c)
                (dueDates now (frequency recurring)
                   (getNextDate (case lastProcessed recurring of Some l \<Rightarrow> l
                                 | None \<Rightarrow> startDate recurring) (frequency recurring)))))"

text \<open>
  Committing a list of produced records through \<open>addTransaction\<close>, one call per record;
  \<open>envs i\<close> is what the \<open>i\<close>-th call reads from its environment.
\<close>

fun commitAll :: "(nat \<Rightarrow> env) \<Rightarrow> nat \<Rightarrow> instant transaction_data list \<Rightarrow> world \<Rightarrow> world" where
  "commitAll envs i [] w = w"
| "commitAll envs i (td # tds) w = commitAll envs (Suc i) tds (addTransaction (envs i) td w)"

text \<open>The calls of \<open>syncTransaction\<close> among the remote calls.\<close>

definition isTransactionPush :: "firestore_call \<Rightarrow> bool" where
  "isTransactionPush c = (case c of SyncTransaction u t \<Rightarrow> True | _ \<Rightarrow> False)"



section \<open>Example data\<close>

text \<open>Concrete inputs, used where a theorem is evaluated.\<close>

definition exampleSettings :: UserSettings where
  "exampleSettings = \<lparr>currency = ''USD'', darkMode = False, biometricEnabled = False,
     notifications = True, language = ''en''\<rparr>"

definition foodCategory :: Category where
  "foodCategory = \<lparr>cat_id = ''food'', cat_name = ''Food'', cat_icon = ''F'',
     cat_color = ''#FF0000'', cat_type = expense, budgetLimit = Some 200\<rparr>"

definition emptyStorage :: AsyncStorage where
  "emptyStorage = \<lparr>TRANSACTIONS = None, CATEGORIES = None, BUDGETS = None, SETTINGS = None\<rparr>"

text \<open>A signed-in session with nothing recorded yet.\<close>

definition signedIn :: world where
  "signedIn = \<lparr>store = \<lparr>transactions = [], categories = [foodCategory], budgets = [],
       settings = exampleSettings, userId = Some ''user1'', isOnline = True,
       isSyncing = False\<rparr>,
     storage = emptyStorage, firestore = [], budgetAlerts = []\<rparr>"




text \<open>A stored transaction with the given id.\<close>

definition entry :: "string \<Rightarrow> instant transaction" where
  "entry ident = \<lparr>amount = 12.5, type = expense, category = ''Food'', categoryId = ''food'',
     description = ''Lunch'', date = 1744675200000, receiptImage = None, txn_id = ident,
     createdAt = 1744675200000, updatedAt = 1744675200000\<rparr>"


text \<open>The signed-in session with three local transactions; a fetch result.\<close>

definition threeLocal :: world where
  "threeLocal = signedIn\<lparr>store := (store signedIn)\<lparr>transactions :=
     [entry ''a'', entry ''b'', entry ''c'']\<rparr>\<rparr>"

definition remoteWith :: "instant transaction list \<Rightarrow> fetched" where
  "remoteWith txns = \<lparr>getTransactions = Some txns, getCategories = Some [],
     getBudgets = Some [], getSettings = Some None\<rparr>"



text \<open>The signed-in session with a budget for January and one for February 2025.\<close>

definition twoBudgets :: world where
  "twoBudgets = signedIn\<lparr>store := (store signedIn)\<lparr>budgets :=
     [\<lparr>budget_id = ''budget_1'', month = ''2025-01'', totalBudget = 1000, categoryBudgets = []\<rparr>,
      \<lparr>budget_id = ''budget_2'', month = ''2025-02'', totalBudget = 1200, categoryBudgets = []\<rparr>]\<rparr>\<rparr>"

section \<open>Facts about the calendar\<close>

lemma div_succ:
  fixes a k :: int
  assumes "0 < k"
  shows "(a + 1) div k = a div k + (if (a + 1) mod k = 0 then 1 else 0)"
proof -
  define q where "q = a div k"
  define r where "r = a mod k"
  have a: "a = k * q + r" and r: "0 \<le> r" "r < k"
    using assms by (simp_all add: q_def r_def)
  show ?thesis
  proof (cases "r + 1 = k")
    case True
    then have e: "a + 1 = k * (q + 1) + 0" using a by (simp add: algebra_simps)
    have "(a + 1) div k = q + 1" by (rule int_div_pos_eq [OF e]) (use assms in simp_all)
    moreover have "(a + 1) mod k = 0" by (rule int_mod_pos_eq [OF e]) (use assms in simp_all)
    ultimately show ?thesis by (simp add: q_def)
  next
    case False
    then have lt: "r + 1 < k" using r by simp
    have e: "a + 1 = k * q + (r + 1)" using a by simp
    have "(a + 1) div k = q" by (rule int_div_pos_eq [OF e]) (use r lt in simp_all)
    moreover have "(a + 1) mod k = r + 1" by (rule int_mod_pos_eq [OF e]) (use r lt in simp_all)
    ultimately show ?thesis using r by (simp add: q_def)
  qed
qed

lemma div_succ_shift:
  fixes y c k :: int
  assumes "0 < k" "k dvd (c - 1)"
  shows "(y + 1 - c) div k = (y - c) div k + (if y mod k = 0 then 1 else 0)"
proof -
  have e: "y + 1 - c = (y - c) + 1" by simp
  obtain j where j: "c - 1 = k * j" using assms(2) by (auto simp: dvd_def)
  have "(y - c + 1) mod k = (y - k * j) mod k" using j by (simp add: algebra_simps)
  also have "\<dots> = y mod k" by algebra
  finally have m: "(y - c + 1) mod k = y mod k" .
  show ?thesis unfolding e using div_succ [OF assms(1), of "y - c"] by (simp only: m)
qed

lemma mod_400_100: "(y::int) mod 400 = 0 \<Longrightarrow> y mod 100 = 0"
  using dvd_trans [of 100 400 y] by (simp add: mod_eq_0_iff_dvd)

lemma mod_100_4: "(y::int) mod 100 = 0 \<Longrightarrow> y mod 4 = 0"
  using dvd_trans [of 4 100 y] by (simp add: mod_eq_0_iff_dvd)

lemma leap_arith:
  fixes A B C y :: int
  assumes "p400 \<Longrightarrow> p100" "p100 \<Longrightarrow> p4"
  shows "365 * (y + 1 - 1970) + (A + (if p4 then 1 else 0)) - (B + (if p100 then 1 else 0))
           + (C + (if p400 then 1 else 0))
         = 365 * (y - 1970) + A - B + C + (if p4 \<and> (\<not> p100 \<or> p400) then 366 else 365)"
  using assms by (cases p4; cases p100; cases p400; simp)

lemma DayFromYear_Suc: "DayFromYear (y + 1) = DayFromYear y + DaysInYear y"
proof -
  have a: "(y + 1 - 1969) div 4 = (y - 1969) div 4 + (if y mod 4 = 0 then 1 else 0)"
    by (rule div_succ_shift) simp_all
  have b: "(y + 1 - 1901) div 100 = (y - 1901) div 100 + (if y mod 100 = 0 then 1 else 0)"
    by (rule div_succ_shift) simp_all
  have c: "(y + 1 - 1601) div 400 = (y - 1601) div 400 + (if y mod 400 = 0 then 1 else 0)"
    by (rule div_succ_shift) simp_all
  show ?thesis
    unfolding DayFromYear_def DaysInYear_def InLeapYear_def a b c
    by (rule leap_arith) (fact mod_400_100 mod_100_4)+
qed

lemma DayFromYear_pred: "DayFromYear (y - 1) = DayFromYear y - DaysInYear (y - 1)"
  using DayFromYear_Suc [of "y - 1"] by simp

lemma DaysInYear_pos: "365 \<le> DaysInYear y"
  by (simp add: DaysInYear_def)

termination YearFromDay
proof (relation "measure (\<lambda>(y, d). nat (if d < DayFromYear y then DayFromYear y - d
                                          else d - DayFromYear (y + 1) + 1))", goal_cases)
  case 1
  show ?case by simp
next
  case (2 y d)
  have "DayFromYear (y - 1) < DayFromYear y"
    using DayFromYear_pred [of y] DaysInYear_pos [of "y - 1"] by linarith
  with 2 show ?case by auto
next
  case (3 y d)
  have "DayFromYear (y + 1) < DayFromYear (y + 1 + 1)"
    using DayFromYear_Suc [of "y + 1"] DaysInYear_pos [of "y + 1"] by linarith
  with 3 show ?case by auto
qed

declare YearFromDay.simps [simp del]

lemma YearFromDay_bounds:
  "DayFromYear (YearFromDay y d) \<le> d \<and> d < DayFromYear (YearFromDay y d + 1)"
proof (induction y d rule: YearFromDay.induct)
  case (1 y d)
  show ?case
  proof (cases "d < DayFromYear y")
    case True
    with 1(1) show ?thesis by (subst (1 2) YearFromDay.simps) simp
  next
    case False
    show ?thesis
    proof (cases "DayFromYear (y + 1) \<le> d")
      case True
      with False 1(2) show ?thesis by (subst (1 2) YearFromDay.simps) simp
    next
      case b: False
      with False show ?thesis by (subst (1 2) YearFromDay.simps) simp
    qed
  qed
qed

lemma DayWithinYear_bounds:
  "0 \<le> DayWithinYear t" "DayWithinYear t < DaysInYear (YearFromTime t)"
  using YearFromDay_bounds [of 1970 "Day t"] DayFromYear_Suc [of "YearFromTime t"]
  by (simp_all add: DayWithinYear_def YearFromTime_def)

lemma MonthFromDay_range: "0 \<le> MonthFromDay y d \<and> MonthFromDay y d \<le> 11"
  by (simp add: MonthFromDay_def Let_def)

lemma Date_in_month:
  assumes "0 \<le> d" "d < DaysInYear y"
  shows "1 \<le> d - DaysBeforeMonth y (MonthFromDay y d) + 1"
    and "d - DaysBeforeMonth y (MonthFromDay y d) + 1 \<le> 31"
  using assms
  by (simp_all add: DaysBeforeMonth_def MonthFromDay_def DaysInYear_def Let_def split: if_splits)

lemma DateFromTime_bounds: "1 \<le> DateFromTime t" "DateFromTime t \<le> 31"
  using Date_in_month [OF DayWithinYear_bounds, of t]
  by (simp_all add: DateFromTime_def MonthFromTime_def)

lemma MakeDay_roundtrip:
  "MakeDay (YearFromTime t) (MonthFromTime t) (DateFromTime t) = Day t"
proof -
  have r: "0 \<le> MonthFromTime t" "MonthFromTime t < 12"
    using MonthFromDay_range [of "YearFromTime t" "DayWithinYear t"]
    by (simp_all add: MonthFromTime_def)
  then have "MonthFromTime t div 12 = 0" "MonthFromTime t mod 12 = MonthFromTime t"
    by simp_all
  then show ?thesis
    by (simp add: MakeDay_def DateFromTime_def DayWithinYear_def)
qed

lemma MakeDay_day: "MakeDay y m dt = MakeDay y m 1 + dt - 1"
  by (simp add: MakeDay_def Let_def)

lemma divmod_succ:
  fixes a k :: int
  assumes "0 < k"
  shows "(a + 1) div k = a div k + (if a mod k = k - 1 then 1 else 0)"
    and "(a + 1) mod k = (if a mod k = k - 1 then 0 else a mod k + 1)"
proof -
  define q where "q = a div k"
  define r where "r = a mod k"
  have a: "a = k * q + r" and r: "0 \<le> r" "r < k"
    using assms by (simp_all add: q_def r_def)
  have "(a + 1) div k = a div k + (if a mod k = k - 1 then 1 else 0)
      \<and> (a + 1) mod k = (if a mod k = k - 1 then 0 else a mod k + 1)"
  proof (cases "r = k - 1")
    case True
    then have e: "a + 1 = k * (q + 1) + 0" using a by (simp add: algebra_simps)
    have "(a + 1) div k = q + 1" by (rule int_div_pos_eq [OF e]) (use assms in simp_all)
    moreover have "(a + 1) mod k = 0" by (rule int_mod_pos_eq [OF e]) (use assms in simp_all)
    ultimately show ?thesis using True by (simp add: q_def r_def)
  next
    case False
    then have lt: "r + 1 < k" using r by simp
    have e: "a + 1 = k * q + (r + 1)" using a by simp
    have "(a + 1) div k = q" by (rule int_div_pos_eq [OF e]) (use r lt in simp_all)
    moreover have "(a + 1) mod k = r + 1" by (rule int_mod_pos_eq [OF e]) (use r lt in simp_all)
    ultimately show ?thesis using False by (simp add: q_def r_def)
  qed
  then show "(a + 1) div k = a div k + (if a mod k = k - 1 then 1 else 0)"
    and "(a + 1) mod k = (if a mod k = k - 1 then 0 else a mod k + 1)" by simp_all
qed

lemma DaysBeforeMonth_step:
  assumes "0 \<le> k" "k < 11"
  shows "DaysBeforeMonth y k + 28 \<le> DaysBeforeMonth y (k + 1)"
proof -
  from assms have "k = 0 \<or> k = 1 \<or> k = 2 \<or> k = 3 \<or> k = 4 \<or> k = 5 \<or> k = 6 \<or> k = 7
      \<or> k = 8 \<or> k = 9 \<or> k = 10" by arith
  then show ?thesis
    by (elim disjE) (simp_all add: DaysBeforeMonth_def)
qed

lemma DaysBeforeMonth_last: "DaysBeforeMonth y 11 + 31 = DaysInYear y"
  by (simp add: DaysBeforeMonth_def DaysInYear_def)

lemma MakeDay_month_step: "MakeDay y m 1 + 28 \<le> MakeDay y (m + 1) 1"
proof (cases "m mod 12 = 11")
  case True
  then have "(m + 1) div 12 = m div 12 + 1" "(m + 1) mod 12 = 0"
    using divmod_succ [of 12 m] by simp_all
  then show ?thesis
    using True DayFromYear_Suc [of "y + m div 12"] DaysBeforeMonth_last [of "y + m div 12"]
    by (simp add: MakeDay_def Let_def add.assoc DaysBeforeMonth_def)
next
  case False
  then have e: "(m + 1) div 12 = m div 12" "(m + 1) mod 12 = m mod 12 + 1"
    using divmod_succ [of 12 m] by simp_all
  have "0 \<le> m mod 12" "m mod 12 < 11"
    using False pos_mod_bound [of 12 m] by simp_all
  from DaysBeforeMonth_step [OF this, of "y + m div 12"] show ?thesis
    by (simp add: MakeDay_def Let_def e)
qed

lemma MakeDay_months:
  assumes "0 \<le> n"
  shows "MakeDay y m 1 + 28 * n \<le> MakeDay y (m + n) 1"
  using assms
proof (induction n rule: int_ge_induct)
  case base
  show ?case by simp
next
  case (step i)
  have "MakeDay y (m + i) 1 + 28 \<le> MakeDay y (m + i + 1) 1" by (rule MakeDay_month_step)
  with step show ?case by (simp add: add.assoc)
qed

lemma msPerDay_pos: "0 < msPerDay"
  by (simp add: msPerDay_def)

lemma TimeWithinDay_bounds: "0 \<le> TimeWithinDay t" "TimeWithinDay t < msPerDay"
  using msPerDay_pos by (simp_all add: TimeWithinDay_def)

lemma MakeDate_Day: "MakeDate (Day t) (TimeWithinDay t) = t"
  by (simp add: MakeDate_def Day_def TimeWithinDay_def)

lemma Day_MakeDate:
  assumes "0 \<le> r" "r < msPerDay"
  shows "Day (MakeDate d r) = d" and "TimeWithinDay (MakeDate d r) = r"
proof -
  have e: "MakeDate d r = msPerDay * d + r" by (simp add: MakeDate_def)
  show "Day (MakeDate d r) = d"
    unfolding Day_def by (rule int_div_pos_eq [OF e assms])
  show "TimeWithinDay (MakeDate d r) = r"
    unfolding TimeWithinDay_def by (rule int_mod_pos_eq [OF e assms])
qed

lemma MakeDate_less: "d < d' \<Longrightarrow> MakeDate d r < MakeDate d' r"
  using msPerDay_pos by (simp add: MakeDate_def)

lemma addDays_eq: "addDays t n = t + n * msPerDay"
proof (cases "n = 0")
  case True
  then show ?thesis by (simp add: addDays_def)
next
  case False
  have "MakeDay (YearFromTime t) (MonthFromTime t) (DateFromTime t + n) = Day t + n"
    using MakeDay_roundtrip [of t]
      MakeDay_day [of "YearFromTime t" "MonthFromTime t" "DateFromTime t + n"]
      MakeDay_day [of "YearFromTime t" "MonthFromTime t" "DateFromTime t"]
    by simp
  then have "addDays t n = MakeDate (Day t + n) (TimeWithinDay t)"
    using False by (simp add: addDays_def setDate_def getDate_def)
  also have "\<dots> = MakeDate (Day t) (TimeWithinDay t) + n * msPerDay"
    by (simp add: MakeDate_def algebra_simps)
  finally show ?thesis by (simp add: MakeDate_Day)
qed

lemma addMonths_progress:
  assumes "1 \<le> n"
  shows "t < addMonths t n"
proof -
  define Y where "Y = YearFromTime t"
  define M where "M = MonthFromTime t"
  define D where "D = DateFromTime t"
  define r where "r = TimeWithinDay t"
  define F where "F = MakeDay Y (M + (n + 1)) 1"
  define e where "e = setMonth t (getMonth t + n + 1) 0"
  have r: "0 \<le> r" "r < msPerDay" using TimeWithinDay_bounds [of t] by (simp_all add: r_def)
  have D: "1 \<le> D" "D \<le> 31" using DateFromTime_bounds [of t] by (simp_all add: D_def)
  have dayt: "Day t = MakeDay Y M 1 + D - 1"
    using MakeDay_roundtrip [of t] MakeDay_day [of Y M D] by (simp add: Y_def M_def D_def)
  have "MakeDay Y M 1 + 28 * (n + 1) \<le> F"
    unfolding F_def by (rule MakeDay_months) (use assms in simp)
  then have far: "MakeDay Y M 1 + 56 \<le> F" using assms by simp
  have e: "e = MakeDate (F - 1) r"
    using MakeDay_day [of Y "M + (n + 1)" 0]
    by (simp add: e_def setMonth_def getMonth_def Y_def M_def r_def F_def add.assoc)
  have daye: "Day e = F - 1" and tode: "TimeWithinDay e = r"
    unfolding e by (rule Day_MakeDate [OF r])+
  have t: "t = MakeDate (Day t) r" by (simp add: r_def MakeDate_Day)
  show ?thesis
  proof (cases "D \<ge> getDate e")
    case True
    then have res: "addMonths t n = e"
      using assms by (simp add: addMonths_def Let_def e_def D_def getDate_def)
    have "Day t < F - 1" using dayt far D by simp
    then have "MakeDate (Day t) r < MakeDate (F - 1) r" by (rule MakeDate_less)
    then show ?thesis using t res e by simp
  next
    case False
    then have res: "addMonths t n = setFullYear t (getFullYear e) (getMonth e) D"
      using assms by (simp add: addMonths_def Let_def e_def D_def getDate_def)
    have "MakeDay (YearFromTime e) (MonthFromTime e) D
        = MakeDay (YearFromTime e) (MonthFromTime e) (DateFromTime e) - DateFromTime e + D"
      using MakeDay_day [of "YearFromTime e" "MonthFromTime e" D]
        MakeDay_day [of "YearFromTime e" "MonthFromTime e" "DateFromTime e"] by simp
    also have "\<dots> = F - 1 - DateFromTime e + D"
      by (simp add: MakeDay_roundtrip daye)
    finally have d': "MakeDay (YearFromTime e) (MonthFromTime e) D = F - 1 - DateFromTime e + D" .
    have "Day t < F - 1 - DateFromTime e + D"
      using dayt far DateFromTime_bounds [of e] by simp
    then have "MakeDate (Day t) r < MakeDate (F - 1 - DateFromTime e + D) r"
      by (rule MakeDate_less)
    then show ?thesis
      using t res d' by (simp add: setFullYear_def getFullYear_def getMonth_def r_def)
  qed
qed

section \<open>The loops of the materializer terminate\<close>

lemma getNextDate_progress: "d < getNextDate d f"
proof (cases f)
  case daily
  then show ?thesis using msPerDay_pos by (simp add: getNextDate_def addDays_eq)
next
  case weekly
  then show ?thesis using msPerDay_pos by (simp add: getNextDate_def addWeeks_def addDays_eq)
next
  case monthly
  then show ?thesis using addMonths_progress [of 1 d] by (simp add: getNextDate_def)
next
  case yearly
  then show ?thesis using addMonths_progress [of 12 d] by (simp add: getNextDate_def addYears_def)
qed

termination missedDates
proof (relation "measure (\<lambda>(now, recurring, nextDate, s). nat (now - nextDate + 1))", goal_cases)
  case 1
  show ?case by simp
next
  case (2 now recurring nextDate s)
  then show ?case using getNextDate_progress [of nextDate "frequency recurring"] by simp
qed

declare missedDates.simps [simp del]

declare showNat.simps [simp del]

termination dueDates
proof (relation "measure (\<lambda>(now, f, nextDate). nat (now - nextDate + 1))", goal_cases)
  case 1
  show ?case by simp
next
  case (2 now f nextDate)
  then show ?case using getNextDate_progress [of nextDate f] by simp
qed

declare dueDates.simps [simp del]

section \<open>The materializer: what it emits and what it leaves alone\<close>

lemma pushNew_occurrence:
  "pushNew recurring d s = s\<lparr>newTransactions := newTransactions s @ [occurrence recurring d]\<rparr>"
  by (simp add: pushNew_def occurrence_def)

lemma missedDates_eq:
  "missedDates now recurring d s =
     s\<lparr>newTransactions := newTransactions s @ map (occurrence recurring)
          (filter (\<lambda>c. \<not> alreadyExists (existingTransactions s) recurring c)
             (dueDates now (frequency recurring) d))\<rparr>"
proof (induction now recurring d s rule: missedDates.induct)
  case (1 now recurring nextDate s)
  show ?case
  proof (cases "nextDate \<le> now")
    case False
    then show ?thesis
      by (subst missedDates.simps, subst dueDates.simps) simp
  next
    case True
    note ih = 1 [OF True]
    show ?thesis
    proof (cases "alreadyExists (existingTransactions s) recurring nextDate")
      case ex: True
      with True ih show ?thesis
        by (subst missedDates.simps, subst dueDates.simps) simp
    next
      case nex: False
      with True ih show ?thesis
        by (subst missedDates.simps, subst dueDates.simps) (simp add: pushNew_occurrence)
    qed
  qed
qed

lemma forEachRecurring_eq:
  "forEachRecurring now s recurring =
     s\<lparr>newTransactions := newTransactions s @ emitted now (existingTransactions s) recurring\<rparr>"
  by (simp add: forEachRecurring_def emitted_def missedDates_eq Let_def)

lemma foldl_forEachRecurring:
  "foldl (forEachRecurring now) s rs =
     s\<lparr>newTransactions := newTransactions s @
          concat (map (emitted now (existingTransactions s)) rs)\<rparr>"
proof (induction rs arbitrary: s)
  case Nil
  show ?case by simp
next
  case (Cons r rs)
  have "foldl (forEachRecurring now) s (r # rs)
      = foldl (forEachRecurring now) (forEachRecurring now s r) rs" by simp
  also have "\<dots> = (forEachRecurring now s r)\<lparr>newTransactions :=
      newTransactions (forEachRecurring now s r) @
      concat (map (emitted now (existingTransactions (forEachRecurring now s r))) rs)\<rparr>"
    by (rule Cons.IH)
  also have "\<dots> = s\<lparr>newTransactions := newTransactions s @
      concat (map (emitted now (existingTransactions s)) (r # rs))\<rparr>"
    by (simp add: forEachRecurring_eq)
  finally show ?case .
qed

lemma processRecurringTransactions_eq:
  "processRecurringTransactions now recurrings existing =
     concat (map (emitted now existing) recurrings)"
  by (simp add: processRecurringTransactions_def runMaterializer_def foldl_forEachRecurring)

subsection \<open>The materializer reads its inputs only\<close>

text \<open>
  Claim C10. \<open>processRecurringTransactions\<close> is read-only on its inputs: after every run
  both argument arrays are what they were, so no recurring definition's \<open>lastProcessed\<close>
  cursor is advanced or written; what it returns is the array \<open>newTransactions\<close>, which
  holds, for each definition in turn, the occurrences that the tag and 24-hour check
  against the existing transactions does not suppress (\<open>emitted\<close>). A second run on the
  arrays as the first run left them therefore returns the same records again.
\<close>

theorem materializer_read_only:
  "recurringTransactions (runMaterializer now
       \<lparr>recurringTransactions = recurrings, existingTransactions = existing,
        newTransactions = []\<rparr>) = recurrings
   \<and> existingTransactions (runMaterializer now
       \<lparr>recurringTransactions = recurrings, existingTransactions = existing,
        newTransactions = []\<rparr>) = existing
   \<and> map lastProcessed (recurringTransactions (runMaterializer now
       \<lparr>recurringTransactions = recurrings, existingTransactions = existing,
        newTransactions = []\<rparr>)) = map lastProcessed recurrings
   \<and> processRecurringTransactions now recurrings existing
       = concat (map (emitted now existing) recurrings)
   \<and> processRecurringTransactions now
         (recurringTransactions (runMaterializer now
            \<lparr>recurringTransactions = recurrings, existingTransactions = existing,
             newTransactions = []\<rparr>))
         (existingTransactions (runMaterializer now
            \<lparr>recurringTransactions = recurrings, existingTransactions = existing,
             newTransactions = []\<rparr>))
       = processRecurringTransactions now recurrings existing"
  by (simp add: runMaterializer_def foldl_forEachRecurring processRecurringTransactions_eq)

subsection \<open>The monthly scenario\<close>






section \<open>Facts about the store operations\<close>

lemma store_saveData [simp]: "store (saveData w) = store w"
  by (simp add: saveData_def)

lemma store_budgetCheck [simp]: "store (budgetCheck c t w) = store w"
  by (simp add: budgetCheck_def Let_def split: option.splits)

lemma transactions_addTransaction:
  "transactions (store (addTransaction e td w)) = makeTransaction e td # transactions (store w)"
  by (simp add: addTransaction_def Let_def)

lemma makeTransaction_fields [simp]:
  "description (makeTransaction e td) = description td"
  "date (makeTransaction e td) = date td"
  "amount (makeTransaction e td) = amount td"
  "type (makeTransaction e td) = type td"
  "txn_id (makeTransaction e td) = newTransactionId (idClock e) (randomSuffix e)"
  by (simp_all add: makeTransaction_def transaction_data.defs transaction.defs)

subsection \<open>Materialization is idempotent\<close>

lemma commitAll_keeps:
  "set (transactions (store w)) \<subseteq> set (transactions (store (commitAll envs i tds w)))"
proof (induction tds arbitrary: i w)
  case Nil
  show ?case by simp
next
  case (Cons td tds)
  have "set (transactions (store w)) \<subseteq> set (transactions (store (addTransaction (envs i) td w)))"
    by (auto simp: transactions_addTransaction)
  also have "\<dots> \<subseteq> set (transactions (store (commitAll envs (Suc i) tds (addTransaction (envs i) td w))))"
    by (rule Cons.IH)
  finally show ?case by simp
qed

lemma commitAll_adds:
  assumes "td \<in> set tds"
  shows "\<exists>t \<in> set (transactions (store (commitAll envs i tds w))).
           description t = description td \<and> date t = date td"
  using assms
proof (induction tds arbitrary: i w)
  case Nil
  then show ?case by simp
next
  case (Cons x tds)
  show ?case
  proof (cases "td = x")
    case True
    have "makeTransaction (envs i) x \<in> set (transactions (store (addTransaction (envs i) x w)))"
      by (simp add: transactions_addTransaction)
    then have "makeTransaction (envs i) x
        \<in> set (transactions (store (commitAll envs (Suc i) tds (addTransaction (envs i) x w))))"
      using commitAll_keeps by blast
    then show ?thesis using True by (intro bexI [of _ "makeTransaction (envs i) x"]) simp_all
  next
    case False
    with Cons.prems have "td \<in> set tds" by simp
    from Cons.IH [OF this] show ?thesis by simp
  qed
qed

lemma str_includes_refl: "str_includes s s"
  by (cases s) simp_all

lemma alreadyExists_mono:
  assumes "alreadyExists existing recurring c" "set existing \<subseteq> set existing'"
  shows "alreadyExists existing' recurring c"
  using assms by (auto simp: alreadyExists_def list_ex_iff)

lemma alreadyExists_occurrence:
  assumes "t \<in> set existing" "description t = description (occurrence recurring c)"
    "date t = date (occurrence recurring c)"
  shows "alreadyExists existing recurring c"
proof -
  have "str_includes (description t) (autoTag recurring) \<and> \<bar>date t - c\<bar> < 24 * 60 * 60 * 1000"
    using assms(2,3) by (simp add: occurrence_def str_includes_refl)
  with assms(1) show ?thesis
    unfolding alreadyExists_def list_ex_iff by (rule bexI [rotated])
qed

lemma emitted_covered:
  assumes keep: "set existing \<subseteq> set existing'"
    and adds: "\<And>td. td \<in> set (emitted now existing recurring) \<Longrightarrow>
       \<exists>t \<in> set existing'. description t = description td \<and> date t = date td"
  shows "emitted now existing' recurring = []"
proof -
  define ds where "ds = dueDates now (frequency recurring)
      (getNextDate (case lastProcessed recurring of Some l \<Rightarrow> l | None \<Rightarrow> startDate recurring)
         (frequency recurring))"
  have "alreadyExists existing' recurring c" if c: "c \<in> set ds"
    and live: "isActive recurring" "\<not> (case endDate recurring of Some e \<Rightarrow> now > e | None \<Rightarrow> False)"
    for c
  proof (cases "alreadyExists existing recurring c")
    case True
    then show ?thesis using keep by (rule alreadyExists_mono)
  next
    case False
    with c live have "occurrence recurring c \<in> set (emitted now existing recurring)"
      by (simp add: emitted_def ds_def)
    from adds [OF this] obtain t where "t \<in> set existing'"
      "description t = description (occurrence recurring c)"
      "date t = date (occurrence recurring c)" by blast
    then show ?thesis by (rule alreadyExists_occurrence)
  qed
  then show ?thesis
    by (auto simp: emitted_def ds_def filter_empty_conv)
qed

text \<open>
  Claim C2. Materialization is idempotent: run the materializer at \<open>now\<close> on the
  store's transactions, commit every produced record through \<open>addTransaction\<close>, and run
  it again at the same \<open>now\<close> on the resulting transactions; the second run produces
  nothing, for every list of recurring definitions, every \<open>now\<close>, every starting world
  and whatever the calls of \<open>addTransaction\<close> read from their environment. Both runs
  return: the loop is a total function.
\<close>

theorem materialize_idempotent:
  "processRecurringTransactions now recurrings
     (transactions (store (commitAll envs 0
        (processRecurringTransactions now recurrings (transactions (store w))) w))) = []"
proof -
  define produced where
    "produced = processRecurringTransactions now recurrings (transactions (store w))"
  define existing' where "existing' = transactions (store (commitAll envs 0 produced w))"
  have keep: "set (transactions (store w)) \<subseteq> set existing'"
    unfolding existing'_def by (rule commitAll_keeps)
  have "emitted now existing' r = []" if r: "r \<in> set recurrings" for r
  proof (rule emitted_covered [OF keep])
    fix td assume "td \<in> set (emitted now (transactions (store w)) r)"
    with r have "td \<in> set produced"
      by (auto simp: produced_def processRecurringTransactions_eq)
    then show "\<exists>t \<in> set existing'. description t = description td \<and> date t = date td"
      unfolding existing'_def by (rule commitAll_adds)
  qed
  then have "processRecurringTransactions now recurrings existing' = []"
    by (simp add: processRecurringTransactions_eq)
  then show ?thesis by (simp add: existing'_def produced_def)
qed

section \<open>Persistence, bootstrap merge and the listener\<close>






text \<open>
  Claim C4. For every snapshot delivered to the callback that
  \<open>subscribeToRealtimeUpdates\<close> registers, the in-memory transactions become the
  snapshot, nothing of the previous list being merged in, the snapshot is written under
  the transactions key, and the categories, budgets and settings are unchanged, in
  memory and on disk.
\<close>

theorem snapshot_replaces_transactions:
  assumes "subscribeToRealtimeUpdates w0 = Some callback"
  shows "transactions (store (callback snapshot w)) = snapshot
       \<and> TRANSACTIONS (storage (callback snapshot w))
           = Some (map (convertDates toISOString) snapshot)
       \<and> categories (store (callback snapshot w)) = categories (store w)
       \<and> budgets (store (callback snapshot w)) = budgets (store w)
       \<and> settings (store (callback snapshot w)) = settings (store w)
       \<and> CATEGORIES (storage (callback snapshot w)) = CATEGORIES (storage w)
       \<and> BUDGETS (storage (callback snapshot w)) = BUDGETS (storage w)
       \<and> SETTINGS (storage (callback snapshot w)) = SETTINGS (storage w)"
proof -
  from assms have "callback = onSnapshot"
    by (simp add: subscribeToRealtimeUpdates_def split: if_splits)
  then show ?thesis by (simp add: onSnapshot_def)
qed

text \<open>
  A session with three local transactions, saved, then a snapshot of one record.
\<close>

theorem snapshot_replaces_transactions_witness:
  "subscribeToRealtimeUpdates signedIn = Some onSnapshot
   \<and> transactions (store (saveData threeLocal)) = [entry ''a'', entry ''b'', entry ''c'']
   \<and> transactions (store (onSnapshot [entry ''z''] (saveData threeLocal))) = [entry ''z'']
   \<and> map_option (map txn_id) (TRANSACTIONS (storage (onSnapshot [entry ''z''] (saveData threeLocal))))
       = Some [''z'']
   \<and> categories (store (onSnapshot [entry ''z''] (saveData threeLocal))) = [foodCategory]
   \<and> CATEGORIES (storage (onSnapshot [entry ''z''] (saveData threeLocal))) = Some [foodCategory]
   \<and> BUDGETS (storage (onSnapshot [entry ''z''] (saveData threeLocal))) = Some []
   \<and> SETTINGS (storage (onSnapshot [entry ''z''] (saveData threeLocal))) = Some exampleSettings"
proof -
  have sub: "subscribeToRealtimeUpdates signedIn = Some onSnapshot"
    by (simp add: subscribeToRealtimeUpdates_def signedIn_def truthy_def)
  from snapshot_replaces_transactions [OF sub, of "[entry ''z'']" "saveData threeLocal"] sub
  show ?thesis
    by (simp add: threeLocal_def signedIn_def saveData_def convertDates_def entry_def)
qed

lemma foldl_push:
  "foldl (\<lambda>v txn. v\<lparr>firestore := firestore v @ [f txn]\<rparr>) w xs
     = w\<lparr>firestore := firestore w @ map f xs\<rparr>"
  by (induction xs arbitrary: w) simp_all

lemma filter_pushes: "filter isTransactionPush (map (SyncTransaction u) xs) = map (SyncTransaction u) xs"
  by (induction xs) (simp_all add: isTransactionPush_def)

text \<open>
  Claim C3. With an identity attached, the bootstrap merge behaves as follows. If the
  remote transaction collection is empty (or its fetch failed) and there are \<open>n > 0\<close>
  local transactions, the local list is unchanged and the \<open>syncTransaction\<close> calls the
  merge issues are exactly one per local transaction, in order. If the remote collection
  is non-empty, the local list becomes exactly the remote records, whatever the local
  ones and their timestamps were, and no transaction is pushed.
\<close>

theorem bootstrap_merge:
  assumes "truthy (userId (store w))"
  shows "(( getTransactions r = None \<or> getTransactions r = Some [])
           \<and> transactions (store w) \<noteq> []
         \<longrightarrow> transactions (store (syncWithFirestore ALL_CATEGORIES r w)) = transactions (store w)
           \<and> filter isTransactionPush
                (drop (length (firestore w)) (firestore (syncWithFirestore ALL_CATEGORIES r w)))
              = map (SyncTransaction (the (userId (store w)))) (transactions (store w)))
       \<and> (\<forall>remote. getTransactions r = Some remote \<and> remote \<noteq> []
         \<longrightarrow> transactions (store (syncWithFirestore ALL_CATEGORIES r w)) = remote
           \<and> filter isTransactionPush
                (drop (length (firestore w)) (firestore (syncWithFirestore ALL_CATEGORIES r w)))
              = [])"
proof -
  define ft where "ft = (case getTransactions r of Some v \<Rightarrow> v | None \<Rightarrow> [])"
  define w' where "w' = syncWithFirestore ALL_CATEGORIES r w"
  define seed where "seed = (if categories (store w) \<noteq> []
      \<and> (case getCategories r of Some v \<Rightarrow> v | None \<Rightarrow> []) = []
    then [SyncCategories (the (userId (store w))) (categories (store w))] else [])"
  have t: "transactions (store w') = (if ft \<noteq> [] then ft else transactions (store w))"
    using assms by (simp add: w'_def ft_def syncWithFirestore_def Let_def foldl_push)
  have f: "firestore w' = firestore w @
      (if transactions (store w) \<noteq> [] \<and> ft = []
       then map (SyncTransaction (the (userId (store w)))) (transactions (store w)) else []) @ seed"
    using assms
    by (simp add: w'_def ft_def seed_def syncWithFirestore_def Let_def saveData_def foldl_push)
  have s: "filter isTransactionPush seed = []"
    by (simp add: seed_def isTransactionPush_def)
  have "transactions (store w') = transactions (store w)
      \<and> filter isTransactionPush (drop (length (firestore w)) (firestore w'))
        = map (SyncTransaction (the (userId (store w)))) (transactions (store w))"
    if "getTransactions r = None \<or> getTransactions r = Some []" "transactions (store w) \<noteq> []"
  proof -
    from that(1) have "ft = []" by (auto simp: ft_def)
    with that(2) show ?thesis by (simp add: t f s filter_pushes)
  qed
  moreover have "transactions (store w') = remote
      \<and> filter isTransactionPush (drop (length (firestore w)) (firestore w')) = []"
    if "getTransactions r = Some remote" "remote \<noteq> []" for remote
  proof -
    from that have "ft = remote" "ft \<noteq> []" by (simp_all add: ft_def)
    then show ?thesis by (simp add: t f s)
  qed
  ultimately show ?thesis unfolding w'_def by blast
qed

text \<open>
  Three local transactions against an empty remote collection, then against a remote
  collection of five.
\<close>

theorem bootstrap_merge_witness:
  "truthy (userId (store threeLocal))
   \<and> transactions (store (syncWithFirestore [foodCategory] (remoteWith []) threeLocal))
       = [entry ''a'', entry ''b'', entry ''c'']
   \<and> filter isTransactionPush (firestore (syncWithFirestore [foodCategory] (remoteWith []) threeLocal))
       = [SyncTransaction ''user1'' (entry ''a''), SyncTransaction ''user1'' (entry ''b''),
          SyncTransaction ''user1'' (entry ''c'')]
   \<and> transactions (store (syncWithFirestore [foodCategory]
         (remoteWith [entry ''p'', entry ''q'', entry ''r'', entry ''s'', entry ''t'']) threeLocal))
       = [entry ''p'', entry ''q'', entry ''r'', entry ''s'', entry ''t'']
   \<and> filter isTransactionPush (firestore (syncWithFirestore [foodCategory]
         (remoteWith [entry ''p'', entry ''q'', entry ''r'', entry ''s'', entry ''t'']) threeLocal))
       = []"
proof -
  have u: "truthy (userId (store threeLocal))"
    by (simp add: threeLocal_def signedIn_def truthy_def)
  from bootstrap_merge [OF u, of "remoteWith []" "[foodCategory]"]
    bootstrap_merge [OF u, of "remoteWith [entry ''p'', entry ''q'', entry ''r'', entry ''s'', entry ''t'']"
      "[foodCategory]"] u
  show ?thesis
    by (simp add: threeLocal_def signedIn_def remoteWith_def)
qed

section \<open>Adding transactions and setting budgets\<close>

subsection \<open>Generated ids\<close>










lemma storage_budgetCheck [simp]: "storage (budgetCheck c t w) = storage w"
  by (simp add: budgetCheck_def Let_def split: option.splits)

lemma firestore_budgetCheck [simp]: "firestore (budgetCheck c t w) = firestore w"
  by (simp add: budgetCheck_def Let_def split: option.splits)



subsection \<open>Validation of the amount\<close>




subsection \<open>The count and the id of a new transaction\<close>




subsection \<open>One budget per month\<close>

lemma budgets_setBudget:
  "budgets (store (setBudget budget w))
     = filter (\<lambda>b. month b \<noteq> month budget) (budgets (store w)) @ [budget]"
  by (simp add: setBudget_def Let_def)

lemma setBudget_unique_months:
  assumes "distinct (map month (budgets (store w)))"
  shows "distinct (map month (budgets (store (setBudget budget w))))"
  using assms by (auto simp: budgets_setBudget distinct_map_filter)

lemma budgets_updateBudget:
  "budgets (store (updateBudget ident updates w))
     = map (\<lambda>budget. if budget_id budget = ident then applyPatch budget updates else budget)
         (budgets (store w))"
  by (simp add: updateBudget_def Let_def split: option.splits)

text \<open>
  Claim C8 says that no two budgets share a month, and that \<open>setBudget\<close> and
  \<open>updateBudget\<close> both preserve this. \<open>setBudget\<close> does (\<open>setBudget_unique_months\<close>);
  \<open>updateBudget\<close> does not: patching the month of the budget of 2025-02 to 2025-01
  leaves two budgets for 2025-01.
\<close>

theorem updateBudget_duplicates_month:
  "map month (budgets (store twoBudgets)) = [''2025-01'', ''2025-02'']
   \<and> map month (budgets (store (updateBudget ''budget_2''
         \<lparr>patch_id = None, patch_month = Some ''2025-01'', patch_totalBudget = None,
          patch_categoryBudgets = None\<rparr> twoBudgets))) = [''2025-01'', ''2025-01'']
   \<and> map budget_id (budgets (store (updateBudget ''budget_2''
         \<lparr>patch_id = None, patch_month = Some ''2025-01'', patch_totalBudget = None,
          patch_categoryBudgets = None\<rparr> twoBudgets))) = [''budget_1'', ''budget_2'']"
  by (simp add: budgets_updateBudget twoBudgets_def applyPatch_def)

section \<open>Budget health thresholds\<close>



end
